theory Spec2Isabelle
  imports Main "HOL-Library.Sublist"
begin

section \<open>The bot's launcher (bot.py)\<close>

text \<open>
  The module bot.py wires a Telegram bot together: it loads the configuration, picks the
  FSM storage, builds the API client, registers the global middlewares on the dispatcher,
  clears the webhook, notifies the administrators, polls, and closes the API client.
  Everything it does is a call into a library or into another module, so the embedding
  threads an explicit system state through the calls: the trace of the calls that leave
  the process (or that a claim orders), the object store (middleware and dispatcher
  objects, by address), and the messaging platform's webhook and queue of pending updates.
  What each outside call answers in one run (returns or raises) is read from a
  \<open>world\<close> record.
\<close>

subsection \<open>Exceptions\<close>

text \<open>
  The top-level guard tells \<open>KeyboardInterrupt\<close> and \<open>SystemExit\<close> from every other
  exception; \<open>Error name\<close> is an exception of any other class.
\<close>

datatype exn = KeyboardInterrupt | SystemExit | Error string

subsection \<open>Configuration\<close>

text \<open>
  Modelled from the spec: the classes of tgbot.config (not among the sources). The spec's
  Config holds the bot credential token, the list of administrator identities, the
  storage-backend selector and the storage connection parameters; bot.py reads them as
  \<open>config.tg_bot.token\<close>, \<open>config.tg_bot.admin_ids\<close>, \<open>config.tg_bot.use_redis\<close> and
  \<open>config.redis.dsn()\<close>. The field \<open>dsn\<close> is the string that \<open>dsn()\<close> returns.
\<close>

record tg_bot_config =
  token :: string
  admin_ids :: "int list"
  use_redis :: bool

record redis_config =
  dsn :: string

record config =
  tg_bot :: tg_bot_config
  redis :: redis_config

subsection \<open>Storage\<close>

datatype key_builder = DefaultKeyBuilder (with_bot_id: bool) (with_destiny: bool)

datatype storage = RedisStorage string key_builder | MemoryStorage

subsection \<open>The API client and Python truthiness\<close>

text \<open>
  The \<open>api_client\<close> argument is either Python's \<open>None\<close> or an object; \<open>if api_client:\<close>
  asks for its truth value, which is False for \<open>None\<close> and what the object's class
  says otherwise (\<open>client_truth\<close>).
\<close>

datatype client = Client (client_id: nat) (client_truth: bool)

fun truthy :: "client option \<Rightarrow> bool" where
  "truthy None = False"
| "truthy (Some c) = client_truth c"

subsection \<open>Middleware objects and the dispatcher\<close>

datatype middleware =
    ConfigMiddleware config
  | ApiMiddleware "client option"
  | LanguageMiddleware

text \<open>
  A dispatcher holds its storage, its routers and, for the message observer and the
  callback-query observer, the list of outer middlewares in registration order. A
  middleware is held by reference: the address of the object in the store.
\<close>

record dispatcher =
  dp_storage :: storage
  dp_routers :: "string list"
  message_outer :: "nat list"
  callback_query_outer :: "nat list"

subsection \<open>Events and the system state\<close>

datatype event =
    LogInfo string
  | LogError string
  | DeleteWebhook bool
  | Broadcast "int list" string
  | SendMessage int string
  | NotifyFailed int
  | StartPolling
  | Dispatched nat
  | SessionClose
  | ApiClose
  | Traceback exn

record sys =
  trace :: "event list"
  objs :: "middleware list"
  dispatchers :: "dispatcher list"
  webhook :: "string option"
  pending :: "nat list"

text \<open>
  What the outside answers in one run: the result of \<open>load_config\<close>; the Redis URLs
  that \<open>RedisStorage.from_url\<close> refuses although their scheme is one it knows; whether the
  constructor \<open>MyApi()\<close> raises and the truth value of the object it returns (the class is
  not among the sources); whether the constructor \<open>Bot(token=...)\<close> raises; the routers of
  tgbot.handlers and whether the dispatcher refuses one of them; the webhook and the
  updates the platform holds when the process starts; whether \<open>bot.delete_webhook\<close>
  raises; the administrators to whom the send fails; the updates that arrive once the
  webhook is cleared; how \<open>dp.start_polling\<close> ends (it returns when the bot is stopped, or
  raises); and whether \<open>api_client.close()\<close> raises.
\<close>

record world =
  load_config_result :: "exn + config"
  redis_url_refused :: "string \<Rightarrow> bool"
  MyApi_raises :: "exn option"
  MyApi_truthy :: bool
  Bot_raises :: "exn option"
  routers_list :: "string list"
  routers_refused :: "exn option"
  stale_webhook :: "string option"
  offline_updates :: "nat list"
  delete_webhook_raises :: "exn option"
  failing_admins :: "int list"
  arrivals :: "nat list"
  polling_raises :: "exn option"
  close_raises :: "exn option"

definition init :: "world \<Rightarrow> sys" where
  "init w = \<lparr>trace = [], objs = [], dispatchers = [],
             webhook = stale_webhook w, pending = offline_updates w\<rparr>"

subsection \<open>Actions: state passing with exceptions\<close>

type_synonym 'a act = "sys \<Rightarrow> (exn + 'a) \<times> sys"

definition ret :: "'a \<Rightarrow> 'a act" where
  "ret x = (\<lambda>s. (Inr x, s))"

definition raise :: "exn \<Rightarrow> 'a act" where
  "raise e = (\<lambda>s. (Inl e, s))"

definition andthen :: "'a act \<Rightarrow> ('a \<Rightarrow> 'b act) \<Rightarrow> 'b act" where
  "andthen m f = (\<lambda>s. case m s of (Inl e, s') \<Rightarrow> (Inl e, s') | (Inr x, s') \<Rightarrow> f x s')"

definition emit :: "event \<Rightarrow> unit act" where
  "emit ev = (\<lambda>s. (Inr (), s\<lparr>trace := trace s @ [ev]\<rparr>))"

definition outcome :: "exn option \<Rightarrow> unit act" where
  "outcome r = (case r of None \<Rightarrow> ret () | Some e \<Rightarrow> raise e)"

subsection \<open>The library calls\<close>

definition logging_info :: "string \<Rightarrow> unit act" where
  "logging_info msg = emit (LogInfo msg)"

definition logging_error :: "string \<Rightarrow> unit act" where
  "logging_error msg = emit (LogError msg)"

text \<open>A call that returns a value or raises, as an action.\<close>

definition of_result :: "exn + 'a \<Rightarrow> 'a act" where
  "of_result r = (case r of Inl e \<Rightarrow> raise e | Inr x \<Rightarrow> ret x)"

definition load_config :: "world \<Rightarrow> string \<Rightarrow> config act" where
  "load_config w path = of_result (load_config_result w)"

text \<open>
  \<open>RedisStorage.from_url(url, key_builder=kb)\<close> parses the URL before it builds the
  storage and raises \<open>ValueError\<close> on a URL it refuses: every URL whose scheme is not
  \<open>redis://\<close>, \<open>rediss://\<close> or \<open>unix://\<close>, and those the world names. It opens no
  connection.
\<close>

definition redis_scheme :: "string \<Rightarrow> bool" where
  "redis_scheme url \<longleftrightarrow>
     prefix ''redis://'' url \<or> prefix ''rediss://'' url \<or> prefix ''unix://'' url"

definition from_url_accepts :: "world \<Rightarrow> string \<Rightarrow> bool" where
  "from_url_accepts w url \<longleftrightarrow> redis_scheme url \<and> \<not> redis_url_refused w url"

definition RedisStorage_from_url :: "world \<Rightarrow> string \<Rightarrow> key_builder \<Rightarrow> exn + storage" where
  "RedisStorage_from_url w url kb =
     (if from_url_accepts w url then Inr (RedisStorage url kb) else Inl (Error ''ValueError''))"

text \<open>
  The class MyApi of infrastructure.some_api.api is not among the sources: whether its
  constructor raises, and the truth value of the object it returns (True unless the
  class defines \<open>__bool__\<close> or \<open>__len__\<close> otherwise), are the world's.
\<close>

definition MyApi :: "world \<Rightarrow> client option act" where
  "MyApi w = andthen (outcome (MyApi_raises w)) (\<lambda>_. ret (Some (Client 0 (MyApi_truthy w))))"

definition api_close :: "world \<Rightarrow> unit act" where
  "api_close w = andthen (emit ApiClose) (\<lambda>_. outcome (close_raises w))"

text \<open>
  \<open>async with Bot(token=...) as bot\<close>: the constructor validates the token and may raise;
  the body runs; the session is closed when the block is left, by return or by exception,
  and an exception of the body goes on.
\<close>

definition async_with_Bot :: "world \<Rightarrow> string \<Rightarrow> (string \<Rightarrow> 'a act) \<Rightarrow> 'a act" where
  "async_with_Bot w tok body =
     andthen (outcome (Bot_raises w))
       (\<lambda>_ s. case body tok s of (r, s') \<Rightarrow> (r, s'\<lparr>trace := trace s' @ [SessionClose]\<rparr>))"

text \<open>
  \<open>bot.delete_webhook(drop_pending_updates=d)\<close>: the platform removes the webhook and,
  when \<open>d\<close> is set, drops every update it holds for the bot.
\<close>

definition Bot_delete_webhook :: "world \<Rightarrow> bool \<Rightarrow> unit act" where
  "Bot_delete_webhook w d =
     andthen (emit (DeleteWebhook d)) (\<lambda>_.
     andthen (outcome (delete_webhook_raises w)) (\<lambda>_ s.
       (Inr (), s\<lparr>webhook := None, pending := (if d then [] else pending s)\<rparr>)))"

definition Dispatcher :: "storage \<Rightarrow> nat act" where
  "Dispatcher st = (\<lambda>s. (Inr (length (dispatchers s)),
     s\<lparr>dispatchers := dispatchers s @
        [\<lparr>dp_storage = st, dp_routers = [], message_outer = [], callback_query_outer = []\<rparr>]\<rparr>))"

definition update_dp :: "nat \<Rightarrow> (dispatcher \<Rightarrow> dispatcher) \<Rightarrow> unit act" where
  "update_dp dp f = (\<lambda>s. (Inr (), s\<lparr>dispatchers := (dispatchers s)[dp := f (dispatchers s ! dp)]\<rparr>))"

text \<open>
  \<open>dp.include_routers(*routers)\<close> raises \<open>ValueError\<close> when it is given no router, and
  raises when the dispatcher refuses one of them; otherwise it attaches them.
\<close>

definition include_routers :: "world \<Rightarrow> nat \<Rightarrow> string list \<Rightarrow> unit act" where
  "include_routers w dp rs =
     (if rs = [] then raise (Error ''ValueError'')
      else andthen (outcome (routers_refused w)) (\<lambda>_.
           update_dp dp (\<lambda>d. d\<lparr>dp_routers := dp_routers d @ rs\<rparr>)))"

definition message_outer_middleware :: "nat \<Rightarrow> nat \<Rightarrow> unit act" where
  "message_outer_middleware dp m = update_dp dp (\<lambda>d. d\<lparr>message_outer := message_outer d @ [m]\<rparr>)"

definition callback_query_outer_middleware :: "nat \<Rightarrow> nat \<Rightarrow> unit act" where
  "callback_query_outer_middleware dp m =
     update_dp dp (\<lambda>d. d\<lparr>callback_query_outer := callback_query_outer d @ [m]\<rparr>)"

text \<open>Constructing a middleware puts a new object in the store and returns its address.\<close>

definition new :: "middleware \<Rightarrow> nat act" where
  "new m = (\<lambda>s. (Inr (length (objs s)), s\<lparr>objs := objs s @ [m]\<rparr>))"

text \<open>
  \<open>dp.start_polling(bot)\<close>: the platform hands over the updates it holds and those that
  arrive, each dispatched in turn, until polling ends; \<open>start_polling\<close> then closes the
  bot session (its \<open>close_bot_session\<close> is True by default) and returns or raises.
\<close>

fun dispatch_all :: "nat list \<Rightarrow> unit act" where
  "dispatch_all [] = ret ()"
| "dispatch_all (u # us) = andthen (emit (Dispatched u)) (\<lambda>_. dispatch_all us)"

definition start_polling :: "world \<Rightarrow> nat \<Rightarrow> string \<Rightarrow> unit act" where
  "start_polling w dp b =
     andthen (emit StartPolling) (\<lambda>_ s.
       andthen (dispatch_all (pending s @ arrivals w)) (\<lambda>_.
       andthen (emit SessionClose) (\<lambda>_.
         outcome (polling_raises w))) (s\<lparr>pending := []\<rparr>))"

text \<open>
  Modelled from the spec: \<open>broadcaster.broadcast\<close> of tgbot.services (not among the
  sources). The spec has it notify every administrator identity, best effort: a send
  that fails is logged, isolated to its recipient, and stops neither the sends to the
  others nor startup.
\<close>

fun broadcast_sends :: "world \<Rightarrow> int list \<Rightarrow> string \<Rightarrow> unit act" where
  "broadcast_sends w [] text = ret ()"
| "broadcast_sends w (u # us) text =
     andthen (emit (SendMessage u text)) (\<lambda>_.
     andthen (if u \<in> set (failing_admins w) then emit (NotifyFailed u) else ret ()) (\<lambda>_.
     broadcast_sends w us text))"

definition broadcast :: "world \<Rightarrow> string \<Rightarrow> int list \<Rightarrow> string \<Rightarrow> unit act" where
  "broadcast w b users text =
     andthen (emit (Broadcast users text)) (\<lambda>_. broadcast_sends w users text)"

subsection \<open>The functions of bot.py\<close>

text \<open>The two messages that are not ASCII, as the bytes of their UTF-8 encoding.\<close>

definition bot_started_text :: string where
  "bot_started_text = map char_of
     [208, 145, 208, 190, 209, 130, 32, 208, 183, 208, 176, 208, 191, 209, 131, 209, 129,
      209, 130, 208, 184, 208, 187, 209, 129, 209, 143, 33 :: nat]"

definition bot_stopped_text :: string where
  "bot_stopped_text = map char_of
     [208, 145, 208, 190, 209, 130, 32, 208, 177, 209, 131, 208, 178, 32, 208, 178, 208, 184,
      208, 188, 208, 186, 208, 189, 208, 181, 208, 189, 208, 184, 208, 185, 33 :: nat]"

definition on_startup :: "world \<Rightarrow> string \<Rightarrow> int list \<Rightarrow> unit act" where
  "on_startup w b ids = broadcast w b ids bot_started_text"

definition delete_webhook :: "world \<Rightarrow> string \<Rightarrow> unit act" where
  "delete_webhook w b =
     andthen (Bot_delete_webhook w True) (\<lambda>_.
     logging_info ''Webhook deleted before polling.'')"

definition on_shutdown :: "world \<Rightarrow> client option \<Rightarrow> unit act" where
  "on_shutdown w api_client =
     (if truthy api_client
      then andthen (api_close w) (\<lambda>_. logging_info ''API client closed successfully'')
      else ret ())"

definition get_storage :: "world \<Rightarrow> config \<Rightarrow> exn + storage" where
  "get_storage w cfg =
     (if use_redis (tg_bot cfg)
      then RedisStorage_from_url w (dsn (redis cfg)) (DefaultKeyBuilder True True)
      else Inr MemoryStorage)"

text \<open>The loop of \<open>register_global_middlewares\<close> over the list it has built.\<close>

fun register_each :: "nat \<Rightarrow> nat list \<Rightarrow> unit act" where
  "register_each dp [] = ret ()"
| "register_each dp (m # ms) =
     andthen (message_outer_middleware dp m) (\<lambda>_.
     andthen (callback_query_outer_middleware dp m) (\<lambda>_.
     register_each dp ms))"

text \<open>The parameter \<open>session_pool\<close> is not used by the function and is left out.\<close>

definition register_global_middlewares :: "nat \<Rightarrow> config \<Rightarrow> client option \<Rightarrow> unit act" where
  "register_global_middlewares dp cfg api_client =
     andthen (new (ConfigMiddleware cfg)) (\<lambda>m0.
     andthen (if truthy api_client
              then andthen (new (ApiMiddleware api_client)) (\<lambda>m1.
                   andthen (new LanguageMiddleware) (\<lambda>m2.
                   ret [m0, m1, m2]))
              else ret [m0]) (\<lambda>middleware_types.
     register_each dp middleware_types))"

text \<open>
  \<open>setup_logging\<close> configures the root logger at level INFO and logs the start line,
  which that level lets through.
\<close>

definition setup_logging :: "unit act" where
  "setup_logging = logging_info ''Starting bot''"

definition main :: "world \<Rightarrow> unit act" where
  "main w =
     andthen setup_logging (\<lambda>_.
     andthen (load_config w ''.env'') (\<lambda>cfg.
     andthen (of_result (get_storage w cfg)) (\<lambda>st.
     andthen (MyApi w) (\<lambda>api_client.
     andthen (async_with_Bot w (token (tg_bot cfg)) (\<lambda>b.
        andthen (Dispatcher st) (\<lambda>dp.
        andthen (include_routers w dp (routers_list w)) (\<lambda>_.
        andthen (register_global_middlewares dp cfg api_client) (\<lambda>_.
        andthen (delete_webhook w b) (\<lambda>_.
        andthen (on_startup w b (admin_ids (tg_bot cfg))) (\<lambda>_.
        start_polling w dp b))))))) (\<lambda>_.
     on_shutdown w api_client)))))"

text \<open>
  The \<open>__main__\<close> guard: \<open>asyncio.run(main())\<close> under
  \<open>except (KeyboardInterrupt, SystemExit)\<close>. An exception of another class is not caught:
  the interpreter prints its traceback and the exit status is 1. The result is the final
  state and the exit status of the process.
\<close>

fun guard :: "exn \<Rightarrow> nat act" where
  "guard KeyboardInterrupt = andthen (logging_error bot_stopped_text) (\<lambda>_. ret 0)"
| "guard SystemExit = andthen (logging_error bot_stopped_text) (\<lambda>_. ret 0)"
| "guard (Error n) = andthen (emit (Traceback (Error n))) (\<lambda>_. ret 1)"

definition run_module :: "world \<Rightarrow> sys \<times> nat" where
  "run_module w =
     (case main w (init w) of
        (Inr _, s) \<Rightarrow> (s, 0)
      | (Inl e, s) \<Rightarrow> (case guard e s of (Inr c, s') \<Rightarrow> (s', c) | (Inl _, s') \<Rightarrow> (s', 1)))"

subsection \<open>Reading a run\<close>

text \<open>The events that the sends of a broadcast leave in the trace.\<close>

fun send_events :: "world \<Rightarrow> int list \<Rightarrow> string \<Rightarrow> event list" where
  "send_events w [] text = []"
| "send_events w (u # us) text =
     SendMessage u text # (if u \<in> set (failing_admins w) then [NotifyFailed u] else [])
       @ send_events w us text"

text \<open>The three steps of startup that the launcher orders, read off an event.\<close>

datatype startup_step = WebhookClear | AdminBroadcast | PollingBegins

fun startup_step_of :: "event \<Rightarrow> startup_step option" where
  "startup_step_of (DeleteWebhook d) = Some WebhookClear"
| "startup_step_of (Broadcast us t) = Some AdminBroadcast"
| "startup_step_of StartPolling = Some PollingBegins"
| "startup_step_of ev = None"

fun startup_steps :: "event list \<Rightarrow> startup_step list" where
  "startup_steps [] = []"
| "startup_steps (ev # evs) =
     (case startup_step_of ev of None \<Rightarrow> startup_steps evs
      | Some st \<Rightarrow> st # startup_steps evs)"

text \<open>
  The updates handed to the dispatcher, the recipients of the sends, and the messages
  logged with \<open>logging.error\<close>, in order.
\<close>

fun dispatched :: "event list \<Rightarrow> nat list" where
  "dispatched [] = []"
| "dispatched (Dispatched u # evs) = u # dispatched evs"
| "dispatched (ev # evs) = dispatched evs"

fun recipients :: "event list \<Rightarrow> int list" where
  "recipients [] = []"
| "recipients (SendMessage u t # evs) = u # recipients evs"
| "recipients (ev # evs) = recipients evs"

fun error_log :: "event list \<Rightarrow> string list" where
  "error_log [] = []"
| "error_log (LogError m # evs) = m # error_log evs"
| "error_log (ev # evs) = error_log evs"

text \<open>
  The middleware objects behind a list of references, and the references that a call
  appended to a pipeline.
\<close>

definition middlewares_at :: "sys \<Rightarrow> nat list \<Rightarrow> middleware list" where
  "middlewares_at s refs = map (\<lambda>r. objs s ! r) refs"

definition added :: "nat list \<Rightarrow> nat list \<Rightarrow> nat list" where
  "added before after = drop (length before) after"

text \<open>What \<open>dp.include_routers(*routers_list)\<close> raises in a run, if it raises.\<close>

definition include_routers_raises :: "world \<Rightarrow> exn option" where
  "include_routers_raises w =
     (if routers_list w = [] then Some (Error ''ValueError'') else routers_refused w)"

text \<open>
  The exception of the first call to raise among those that \<open>main\<close> makes before it
  polls, in the order it makes them: \<open>load_config\<close> and \<open>get_storage\<close> (Configuring),
  \<open>MyApi()\<close> and \<open>Bot(token=...)\<close> (Connecting), then \<open>include_routers\<close> and the webhook
  clear, the first call that presents the credential to the platform.
\<close>

definition startup_failure :: "world \<Rightarrow> exn option" where
  "startup_failure w =
     (case load_config_result w of Inl e \<Rightarrow> Some e | Inr cfg \<Rightarrow>
     (case get_storage w cfg of Inl e \<Rightarrow> Some e | Inr st \<Rightarrow>
     (case MyApi_raises w of Some e \<Rightarrow> Some e | None \<Rightarrow>
     (case Bot_raises w of Some e \<Rightarrow> Some e | None \<Rightarrow>
     (case include_routers_raises w of Some e \<Rightarrow> Some e | None \<Rightarrow>
      delete_webhook_raises w)))))"

text \<open>
  The states that \<open>main\<close> goes through: after the start line; when the block is left
  with the new dispatcher only; after registration; after polling.
\<close>

definition started :: "world \<Rightarrow> sys" where
  "started w = (init w)\<lparr>trace := [LogInfo ''Starting bot'']\<rparr>"

definition created :: "world \<Rightarrow> storage \<Rightarrow> sys" where
  "created w st = (init w)
     \<lparr>trace := [LogInfo ''Starting bot'', SessionClose],
      dispatchers := [\<lparr>dp_storage = st, dp_routers = [],
                       message_outer = [], callback_query_outer = []\<rparr>]\<rparr>"

definition registered :: "world \<Rightarrow> config \<Rightarrow> storage \<Rightarrow> sys" where
  "registered w cfg st = (started w)
     \<lparr>objs := (if MyApi_truthy w
               then [ConfigMiddleware cfg, ApiMiddleware (Some (Client 0 True)), LanguageMiddleware]
               else [ConfigMiddleware cfg]),
      dispatchers := [\<lparr>dp_storage = st, dp_routers = routers_list w,
                       message_outer = (if MyApi_truthy w then [0, 1, 2] else [0]),
                       callback_query_outer = (if MyApi_truthy w then [0, 1, 2] else [0])\<rparr>]\<rparr>"

definition polled :: "world \<Rightarrow> config \<Rightarrow> storage \<Rightarrow> sys" where
  "polled w cfg st = (registered w cfg st)
     \<lparr>trace := [LogInfo ''Starting bot'', DeleteWebhook True,
                 LogInfo ''Webhook deleted before polling.'',
                 Broadcast (admin_ids (tg_bot cfg)) bot_started_text]
                @ send_events w (admin_ids (tg_bot cfg)) bot_started_text
                @ [StartPolling] @ map Dispatched (arrivals w) @ [SessionClose, SessionClose],
      webhook := None, pending := []\<rparr>"

subsection \<open>Example runs\<close>

definition cfg_example :: config where
  "cfg_example = \<lparr>tg_bot = \<lparr>token = ''42:abc'', admin_ids = [111, 222], use_redis = False\<rparr>,
                  redis = \<lparr>dsn = ''redis://localhost:6379/0''\<rparr>\<rparr>"

definition cfg_redis :: config where
  "cfg_redis = \<lparr>tg_bot = \<lparr>token = ''42:abc'', admin_ids = [111, 222], use_redis = True\<rparr>,
                redis = \<lparr>dsn = ''redis://localhost:6379/0''\<rparr>\<rparr>"

definition cfg_bad_dsn :: config where
  "cfg_bad_dsn = \<lparr>tg_bot = \<lparr>token = ''42:abc'', admin_ids = [111, 222], use_redis = True\<rparr>,
                  redis = \<lparr>dsn = ''localhost:6379''\<rparr>\<rparr>"

text \<open>
  A run in which every call returns: two updates are queued from before the start, the
  send to administrator 111 fails, one update arrives while polling.
\<close>

definition world_example :: world where
  "world_example = \<lparr>load_config_result = Inr cfg_example, redis_url_refused = (\<lambda>url. False),
     MyApi_raises = None, MyApi_truthy = True, Bot_raises = None,
     routers_list = [''user'', ''echo''], routers_refused = None,
     stale_webhook = Some ''https://old.example/hook'',
     offline_updates = [1, 2], delete_webhook_raises = None, failing_admins = [111],
     arrivals = [3], polling_raises = None, close_raises = None\<rparr>"

text \<open>A state that holds one new dispatcher and no middleware object.\<close>

definition sys_example :: sys where
  "sys_example = snd (Dispatcher MemoryStorage (init world_example))"

text \<open>The same run with no update at all; and runs in which one call raises.\<close>

definition world_quiet :: world where
  "world_quiet = world_example\<lparr>offline_updates := [], arrivals := []\<rparr>"

definition world_polling_fails :: world where
  "world_polling_fails = world_quiet\<lparr>polling_raises := Some (Error ''TelegramNetworkError'')\<rparr>"

definition world_interrupted :: world where
  "world_interrupted = world_example\<lparr>polling_raises := Some KeyboardInterrupt\<rparr>"

definition world_bad_config :: world where
  "world_bad_config = world_example\<lparr>load_config_result := Inl (Error ''ConfigError'')\<rparr>"

definition world_config_exit :: world where
  "world_config_exit = world_example\<lparr>load_config_result := Inl SystemExit\<rparr>"

definition world_bad_dsn :: world where
  "world_bad_dsn = world_example\<lparr>load_config_result := Inr cfg_bad_dsn\<rparr>"

definition world_unauthorized :: world where
  "world_unauthorized =
     world_example\<lparr>delete_webhook_raises := Some (Error ''TelegramUnauthorizedError'')\<rparr>"

section \<open>Properties\<close>

subsection \<open>How the actions run\<close>

lemmas act_defs = ret_def raise_def andthen_def emit_def outcome_def of_result_def
  logging_info_def logging_error_def update_dp_def new_def

lemmas main_defs = main_def setup_logging_def load_config_def MyApi_def async_with_Bot_def
  Dispatcher_def include_routers_def delete_webhook_def Bot_delete_webhook_def on_startup_def
  broadcast_def start_polling_def on_shutdown_def api_close_def

lemma init_simps:
  "trace (init w) = []" "objs (init w) = []" "dispatchers (init w) = []"
  "webhook (init w) = stale_webhook w" "pending (init w) = offline_updates w"
  by (simp_all add: init_def)

lemma dispatch_all_run: "dispatch_all us s = (Inr (), s\<lparr>trace := trace s @ map Dispatched us\<rparr>)"
  by (induction us arbitrary: s) (simp_all add: act_defs)

lemma broadcast_sends_run:
  "broadcast_sends w us text s = (Inr (), s\<lparr>trace := trace s @ send_events w us text\<rparr>)"
  by (induction us arbitrary: s) (simp_all add: act_defs)

lemma register_each_run:
  "register_each dp ms s =
     (Inr (), s\<lparr>dispatchers := (dispatchers s)[dp := (dispatchers s ! dp)
        \<lparr>message_outer := message_outer (dispatchers s ! dp) @ ms,
         callback_query_outer := callback_query_outer (dispatchers s ! dp) @ ms\<rparr>]\<rparr>)"
proof (induction ms arbitrary: s)
  case Nil
  then show ?case by (simp add: act_defs)
next
  case (Cons m ms)
  show ?case
  proof (cases "dp < length (dispatchers s)")
    case True
    then show ?thesis
      by (simp add: Cons act_defs message_outer_middleware_def callback_query_outer_middleware_def)
  next
    case False
    then have "\<And>d. (dispatchers s)[dp := d] = dispatchers s"
      by (simp add: list_update_beyond)
    then show ?thesis
      by (simp add: Cons act_defs message_outer_middleware_def callback_query_outer_middleware_def)
  qed
qed

text \<open>
  What a call of \<open>register_global_middlewares\<close> does to the state: the objects it
  constructs go to the end of the store, and their addresses, in that order, to the end
  of both pipelines of the dispatcher.
\<close>

lemma register_global_middlewares_run:
  "register_global_middlewares dp cfg api s =
     (Inr (), s\<lparr>objs := objs s @
          (if truthy api then [ConfigMiddleware cfg, ApiMiddleware api, LanguageMiddleware]
           else [ConfigMiddleware cfg]),
        dispatchers := (dispatchers s)[dp := (dispatchers s ! dp)
        \<lparr>message_outer := message_outer (dispatchers s ! dp) @
           (if truthy api
            then [length (objs s), Suc (length (objs s)), Suc (Suc (length (objs s)))]
            else [length (objs s)]),
         callback_query_outer := callback_query_outer (dispatchers s ! dp) @
           (if truthy api
            then [length (objs s), Suc (length (objs s)), Suc (Suc (length (objs s)))]
            else [length (objs s)])\<rparr>]\<rparr>)"
  by (simp add: register_global_middlewares_def register_each_run act_defs
        del: register_each.simps)

lemma guard_run:
  "guard e s = (case e of Error n \<Rightarrow> (Inr 1, s\<lparr>trace := trace s @ [Traceback (Error n)]\<rparr>)
                | _ \<Rightarrow> (Inr 0, s\<lparr>trace := trace s @ [LogError bot_stopped_text]\<rparr>))"
  by (cases e) (simp_all add: act_defs)

text \<open>The runs of \<open>main\<close>, by the first call that raises.\<close>

lemma main_run:
  "main w (init w) =
    (case load_config_result w of Inl e \<Rightarrow> (Inl e, started w) | Inr cfg \<Rightarrow>
     (case get_storage w cfg of Inl e \<Rightarrow> (Inl e, started w) | Inr st \<Rightarrow>
     (case MyApi_raises w of Some e \<Rightarrow> (Inl e, started w) | None \<Rightarrow>
     (case Bot_raises w of Some e \<Rightarrow> (Inl e, started w) | None \<Rightarrow>
     (case include_routers_raises w of Some e \<Rightarrow> (Inl e, created w st) | None \<Rightarrow>
     (case delete_webhook_raises w of
        Some e \<Rightarrow> (Inl e, (registered w cfg st)
                      \<lparr>trace := [LogInfo ''Starting bot'', DeleteWebhook True, SessionClose]\<rparr>)
      | None \<Rightarrow>
     (case polling_raises w of Some e \<Rightarrow> (Inl e, polled w cfg st) | None \<Rightarrow>
     (if MyApi_truthy w
      then (case close_raises w of
              Some e \<Rightarrow> (Inl e, (polled w cfg st)\<lparr>trace := trace (polled w cfg st) @ [ApiClose]\<rparr>)
            | None \<Rightarrow> (Inr (), (polled w cfg st)\<lparr>trace := trace (polled w cfg st) @
                          [ApiClose, LogInfo ''API client closed successfully'']\<rparr>))
      else (Inr (), polled w cfg st)))))))))"
  by (simp add: main_defs act_defs register_global_middlewares_run broadcast_sends_run
        dispatch_all_run started_def created_def registered_def polled_def init_def
        include_routers_raises_def
        split: sum.splits option.splits)

lemma main_cases [case_names config_error storage_error api_error bot_error routers_error
    webhook_error polling_error close_error closed unclosed]:
  obtains e where "load_config_result w = Inl e" "main w (init w) = (Inl e, started w)"
  | cfg e where "load_config_result w = Inr cfg" "get_storage w cfg = Inl e"
      "main w (init w) = (Inl e, started w)"
  | cfg st e where "load_config_result w = Inr cfg" "get_storage w cfg = Inr st"
      "MyApi_raises w = Some e" "main w (init w) = (Inl e, started w)"
  | cfg st e where "load_config_result w = Inr cfg" "get_storage w cfg = Inr st"
      "MyApi_raises w = None" "Bot_raises w = Some e" "main w (init w) = (Inl e, started w)"
  | cfg st e where "load_config_result w = Inr cfg" "get_storage w cfg = Inr st"
      "MyApi_raises w = None" "Bot_raises w = None" "include_routers_raises w = Some e"
      "main w (init w) = (Inl e, created w st)"
  | cfg st e where "load_config_result w = Inr cfg" "get_storage w cfg = Inr st"
      "MyApi_raises w = None" "Bot_raises w = None" "include_routers_raises w = None"
      "delete_webhook_raises w = Some e"
      "main w (init w) = (Inl e, (registered w cfg st)
          \<lparr>trace := [LogInfo ''Starting bot'', DeleteWebhook True, SessionClose]\<rparr>)"
  | cfg st e where "load_config_result w = Inr cfg" "get_storage w cfg = Inr st"
      "MyApi_raises w = None" "Bot_raises w = None" "include_routers_raises w = None"
      "delete_webhook_raises w = None" "polling_raises w = Some e"
      "main w (init w) = (Inl e, polled w cfg st)"
  | cfg st e where "load_config_result w = Inr cfg" "get_storage w cfg = Inr st"
      "MyApi_raises w = None" "Bot_raises w = None" "include_routers_raises w = None"
      "delete_webhook_raises w = None" "polling_raises w = None" "MyApi_truthy w"
      "close_raises w = Some e"
      "main w (init w) =
         (Inl e, (polled w cfg st)\<lparr>trace := trace (polled w cfg st) @ [ApiClose]\<rparr>)"
  | cfg st where "load_config_result w = Inr cfg" "get_storage w cfg = Inr st"
      "MyApi_raises w = None" "Bot_raises w = None" "include_routers_raises w = None"
      "delete_webhook_raises w = None" "polling_raises w = None" "MyApi_truthy w"
      "close_raises w = None"
      "main w (init w) = (Inr (), (polled w cfg st)\<lparr>trace := trace (polled w cfg st) @
          [ApiClose, LogInfo ''API client closed successfully'']\<rparr>)"
  | cfg st where "load_config_result w = Inr cfg" "get_storage w cfg = Inr st"
      "MyApi_raises w = None" "Bot_raises w = None" "include_routers_raises w = None"
      "delete_webhook_raises w = None" "polling_raises w = None" "\<not> MyApi_truthy w"
      "main w (init w) = (Inr (), polled w cfg st)"
proof (cases "load_config_result w")
  case (Inl e)
  then show ?thesis using that(1) by (simp add: main_run)
next
  case cfg: (Inr cfg)
  show ?thesis
  proof (cases "get_storage w cfg")
    case (Inl e)
    then show ?thesis using cfg that(2) by (simp add: main_run)
  next
    case st: (Inr st)
    show ?thesis
    proof (cases "MyApi_raises w")
      case (Some e)
      then show ?thesis using cfg st that(3) by (simp add: main_run)
    next
      case api: None
      show ?thesis
      proof (cases "Bot_raises w")
        case (Some e)
        then show ?thesis using cfg st api that(4) by (simp add: main_run)
      next
        case bot: None
        show ?thesis
        proof (cases "include_routers_raises w")
          case (Some e)
          then show ?thesis using cfg st api bot that(5) by (simp add: main_run)
        next
          case rts: None
          show ?thesis
          proof (cases "delete_webhook_raises w")
            case (Some e)
            then show ?thesis using cfg st api bot rts that(6) by (simp add: main_run)
          next
            case hook: None
            show ?thesis
            proof (cases "polling_raises w")
              case (Some e)
              then show ?thesis using cfg st api bot rts hook that(7) by (simp add: main_run)
            next
              case poll: None
              show ?thesis
              proof (cases "MyApi_truthy w")
                case False
                then show ?thesis
                  using cfg st api bot rts hook poll that(10) by (simp add: main_run)
              next
                case truth: True
                show ?thesis
                proof (cases "close_raises w")
                  case (Some e)
                  then show ?thesis
                    using cfg st api bot rts hook poll truth that(8) by (simp add: main_run)
                next
                  case None
                  then show ?thesis
                    using cfg st api bot rts hook poll truth that(9) by (simp add: main_run)
                qed
              qed
            qed
          qed
        qed
      qed
    qed
  qed
qed

subsection \<open>Reading the trace\<close>

lemma startup_steps_append: "startup_steps (xs @ ys) = startup_steps xs @ startup_steps ys"
  by (induction xs) (simp_all split: option.splits)

lemma startup_steps_send_events: "startup_steps (send_events w us t) = []"
  by (induction us) (simp_all add: startup_steps_append)

lemma startup_steps_Dispatched: "startup_steps (map Dispatched us) = []"
  by (induction us) simp_all

lemma dispatched_append: "dispatched (xs @ ys) = dispatched xs @ dispatched ys"
  by (induction xs rule: dispatched.induct) simp_all

lemma dispatched_send_events: "dispatched (send_events w us t) = []"
  by (induction us) (simp_all add: dispatched_append)

lemma dispatched_Dispatched: "dispatched (map Dispatched us) = us"
  by (induction us) simp_all

lemma recipients_append: "recipients (xs @ ys) = recipients xs @ recipients ys"
  by (induction xs rule: recipients.induct) simp_all

lemma recipients_send_events: "recipients (send_events w us t) = us"
  by (induction us) (simp_all add: recipients_append)

lemma recipients_Dispatched: "recipients (map Dispatched us) = []"
  by (induction us) simp_all

lemma error_log_append: "error_log (xs @ ys) = error_log xs @ error_log ys"
  by (induction xs rule: error_log.induct) simp_all

lemma error_log_send_events: "error_log (send_events w us t) = []"
  by (induction us) (simp_all add: error_log_append)

lemma error_log_Dispatched: "error_log (map Dispatched us) = []"
  by (induction us) simp_all

lemma count_ApiClose_send_events: "count_list (send_events w us t) ApiClose = 0"
  by (induction us) simp_all

lemma count_ApiClose_Dispatched: "count_list (map Dispatched us) ApiClose = 0"
  by (induction us) simp_all

lemma count_SessionClose_send_events: "count_list (send_events w us t) SessionClose = 0"
  by (induction us) simp_all

lemma count_SessionClose_Dispatched: "count_list (map Dispatched us) SessionClose = 0"
  by (induction us) simp_all

lemma StartPolling_send_events: "StartPolling \<notin> set (send_events w us t)"
  by (induction us) simp_all

lemma StartPolling_Dispatched: "StartPolling \<notin> set (map Dispatched us)"
  by (induction us) simp_all

lemmas trace_simps = startup_steps_append startup_steps_send_events startup_steps_Dispatched
  dispatched_append dispatched_send_events dispatched_Dispatched
  recipients_append recipients_send_events recipients_Dispatched
  error_log_append error_log_send_events error_log_Dispatched
  count_ApiClose_send_events count_ApiClose_Dispatched
  count_SessionClose_send_events count_SessionClose_Dispatched
  StartPolling_send_events StartPolling_Dispatched

lemmas run_simps = run_module_def guard_run started_def created_def registered_def polled_def
  init_simps act_defs

subsection \<open>The example runs, evaluated\<close>

lemma sys_example_simps:
  "sys_example = \<lparr>trace = [], objs = [],
     dispatchers = [\<lparr>dp_storage = MemoryStorage, dp_routers = [], message_outer = [],
                      callback_query_outer = []\<rparr>],
     webhook = Some ''https://old.example/hook'', pending = [1, 2]\<rparr>"
  by (simp add: sys_example_def Dispatcher_def init_def world_example_def)

lemma get_storage_cfg_example: "get_storage w cfg_example = Inr MemoryStorage"
  by (simp add: get_storage_def cfg_example_def)

lemma main_world_example:
  "main world_example (init world_example) =
     (Inr (), (polled world_example cfg_example MemoryStorage)
        \<lparr>trace := trace (polled world_example cfg_example MemoryStorage)
             @ [ApiClose, LogInfo ''API client closed successfully'']\<rparr>)"
  by (simp add: main_run get_storage_cfg_example include_routers_raises_def world_example_def)

lemma trace_world_example:
  "trace (fst (run_module world_example)) =
     [LogInfo ''Starting bot'', DeleteWebhook True, LogInfo ''Webhook deleted before polling.'',
      Broadcast [111, 222] bot_started_text,
      SendMessage 111 bot_started_text, NotifyFailed 111, SendMessage 222 bot_started_text,
      StartPolling, Dispatched 3, SessionClose, SessionClose, ApiClose,
      LogInfo ''API client closed successfully'']"
  by (simp add: run_module_def main_world_example polled_def registered_def started_def init_simps)
     (simp add: world_example_def cfg_example_def)

lemma dispatchers_world_example:
  "dispatchers (fst (run_module world_example)) =
     [\<lparr>dp_storage = MemoryStorage, dp_routers = [''user'', ''echo''],
       message_outer = [0, 1, 2], callback_query_outer = [0, 1, 2]\<rparr>]"
  by (simp add: run_module_def main_world_example polled_def registered_def started_def init_simps)
     (simp add: world_example_def cfg_example_def)


lemma main_world_quiet:
  "main world_quiet (init world_quiet) =
     (Inr (), (polled world_quiet cfg_example MemoryStorage)
        \<lparr>trace := trace (polled world_quiet cfg_example MemoryStorage)
             @ [ApiClose, LogInfo ''API client closed successfully'']\<rparr>)"
  by (simp add: main_run get_storage_cfg_example include_routers_raises_def
        world_quiet_def world_example_def)

lemma main_world_polling_fails:
  "main world_polling_fails (init world_polling_fails) =
     (Inl (Error ''TelegramNetworkError''), polled world_polling_fails cfg_example MemoryStorage)"
  by (simp add: main_run get_storage_cfg_example include_routers_raises_def
        world_polling_fails_def world_quiet_def world_example_def)

lemma main_world_interrupted:
  "main world_interrupted (init world_interrupted) =
     (Inl KeyboardInterrupt, polled world_interrupted cfg_example MemoryStorage)"
  by (simp add: main_run get_storage_cfg_example include_routers_raises_def
        world_interrupted_def world_example_def)

lemma main_world_bad_config:
  "main world_bad_config (init world_bad_config) = (Inl (Error ''ConfigError''), started world_bad_config)"
  by (simp add: main_run world_bad_config_def)

lemma main_world_config_exit:
  "main world_config_exit (init world_config_exit) = (Inl SystemExit, started world_config_exit)"
  by (simp add: main_run world_config_exit_def)

lemma get_storage_cfg_bad_dsn: "get_storage w cfg_bad_dsn = Inl (Error ''ValueError'')"
  by (simp add: get_storage_def RedisStorage_from_url_def from_url_accepts_def redis_scheme_def
        cfg_bad_dsn_def)

lemma main_world_bad_dsn:
  "main world_bad_dsn (init world_bad_dsn) = (Inl (Error ''ValueError''), started world_bad_dsn)"
  by (simp add: main_run get_storage_cfg_bad_dsn world_bad_dsn_def)

section \<open>The claims\<close>

subsection \<open>The middleware chain\<close>

text \<open>
  C1. A call of \<open>register_global_middlewares\<close> on a dispatcher returns without an error
  and appends to each pipeline (nothing already there is removed or moved) references
  to the middlewares ConfigMiddleware, ApiMiddleware, LanguageMiddleware, in this order,
  when \<open>api_client\<close> is truthy, and to ConfigMiddleware alone when \<open>api_client\<close> is
  \<open>None\<close> or falsy. In both cases the first middleware registered is the
  ConfigMiddleware of the given config.
\<close>

theorem register_global_middlewares_chain:
  "dp < length (dispatchers s) \<Longrightarrow>
   (let s' = snd (register_global_middlewares dp cfg api_client s);
        d = dispatchers s ! dp; d' = dispatchers s' ! dp;
        chain = (if truthy api_client
                 then [ConfigMiddleware cfg, ApiMiddleware api_client, LanguageMiddleware]
                 else [ConfigMiddleware cfg])
    in fst (register_global_middlewares dp cfg api_client s) = Inr () \<and>
       message_outer d' = message_outer d @ added (message_outer d) (message_outer d') \<and>
       callback_query_outer d' =
         callback_query_outer d @ added (callback_query_outer d) (callback_query_outer d') \<and>
       middlewares_at s' (added (message_outer d) (message_outer d')) = chain \<and>
       middlewares_at s' (added (callback_query_outer d) (callback_query_outer d')) = chain \<and>
       hd (middlewares_at s' (added (message_outer d) (message_outer d'))) = ConfigMiddleware cfg)"
  by (simp add: register_global_middlewares_run Let_def added_def middlewares_at_def nth_append)

theorem register_global_middlewares_chain_witness:
  "0 < length (dispatchers sys_example) \<and>
   middlewares_at (snd (register_global_middlewares 0 cfg_example (Some (Client 7 True)) sys_example))
     (message_outer (dispatchers
        (snd (register_global_middlewares 0 cfg_example (Some (Client 7 True)) sys_example)) ! 0))
     = [ConfigMiddleware cfg_example, ApiMiddleware (Some (Client 7 True)), LanguageMiddleware] \<and>
   middlewares_at (snd (register_global_middlewares 0 cfg_example None sys_example))
     (message_outer (dispatchers
        (snd (register_global_middlewares 0 cfg_example None sys_example)) ! 0))
     = [ConfigMiddleware cfg_example]"
  using register_global_middlewares_chain [of 0 sys_example cfg_example "Some (Client 7 True)"]
    register_global_middlewares_chain [of 0 sys_example cfg_example None]
  by (simp add: sys_example_simps Let_def added_def)

subsection \<open>The order of startup\<close>

text \<open>
  C2. In every run, the startup steps that occur (the webhook-clear call, the call of the
  administrator broadcast, the start of polling) are an initial part of the sequence
  webhook clear, broadcast, polling: each occurs at most once, the broadcast never
  without the webhook clear before it, polling never without the broadcast before it.
  Whenever polling starts, all three have occurred, in this order.
\<close>

theorem startup_order:
  "prefix (startup_steps (trace (fst (run_module w))))
          [WebhookClear, AdminBroadcast, PollingBegins] \<and>
   (StartPolling \<in> set (trace (fst (run_module w))) \<longrightarrow>
      startup_steps (trace (fst (run_module w))) = [WebhookClear, AdminBroadcast, PollingBegins])"
  by (cases w rule: main_cases; simp add: run_simps trace_simps split: exn.splits)

theorem startup_order_witness:
  "StartPolling \<in> set (trace (fst (run_module world_example))) \<and>
   startup_steps (trace (fst (run_module world_example)))
     = [WebhookClear, AdminBroadcast, PollingBegins]"
proof -
  have "StartPolling \<in> set (trace (fst (run_module world_example)))"
    by (simp add: trace_world_example)
  with startup_order [of world_example] show ?thesis by simp
qed

subsection \<open>The storage\<close>

text \<open>
  C3, as the code has it. \<open>get_storage\<close> returns the memory storage exactly when
  \<open>use_redis\<close> is not set. With \<open>use_redis\<close> set it calls \<open>RedisStorage.from_url\<close> on
  \<open>config.redis.dsn()\<close> with the key builder
  \<open>DefaultKeyBuilder(with_bot_id=True, with_destiny=True)\<close>: it returns that Redis storage
  exactly when \<open>from_url\<close> accepts the URL, and raises \<open>ValueError\<close> otherwise, as for
  every URL whose scheme is not \<open>redis://\<close>, \<open>rediss://\<close> or \<open>unix://\<close>. A run builds at
  most one dispatcher, and the storage that dispatcher holds at the end of the run is
  the one \<open>get_storage\<close> returned for the loaded config.
\<close>

theorem storage_selection:
  "((\<exists>url. get_storage w cfg = Inr (RedisStorage url (DefaultKeyBuilder True True)))
      \<longleftrightarrow> use_redis (tg_bot cfg) \<and> from_url_accepts w (dsn (redis cfg))) \<and>
   (get_storage w cfg = Inr MemoryStorage \<longleftrightarrow> \<not> use_redis (tg_bot cfg)) \<and>
   (use_redis (tg_bot cfg) \<and> from_url_accepts w (dsn (redis cfg)) \<longrightarrow>
      get_storage w cfg = Inr (RedisStorage (dsn (redis cfg)) (DefaultKeyBuilder True True))) \<and>
   (use_redis (tg_bot cfg) \<and> \<not> from_url_accepts w (dsn (redis cfg)) \<longrightarrow>
      get_storage w cfg = Inl (Error ''ValueError'')) \<and>
   (\<not> redis_scheme (dsn (redis cfg)) \<longrightarrow> \<not> from_url_accepts w (dsn (redis cfg))) \<and>
   length (dispatchers (fst (run_module w))) \<le> 1 \<and>
   (\<forall>d \<in> set (dispatchers (fst (run_module w))).
      \<exists>c. load_config_result w = Inr c \<and> get_storage w c = Inr (dp_storage d))"
proof -
  have "length (dispatchers (fst (run_module w))) \<le> 1 \<and>
   (\<forall>d \<in> set (dispatchers (fst (run_module w))).
      \<exists>c. load_config_result w = Inr c \<and> get_storage w c = Inr (dp_storage d))"
    by (cases w rule: main_cases; simp add: run_simps split: exn.splits)
  then show ?thesis
    by (simp add: get_storage_def RedisStorage_from_url_def from_url_accepts_def)
qed

theorem storage_selection_witness:
  "use_redis (tg_bot cfg_redis) \<and> from_url_accepts world_example (dsn (redis cfg_redis)) \<and>
   get_storage world_example cfg_redis
     = Inr (RedisStorage ''redis://localhost:6379/0'' (DefaultKeyBuilder True True)) \<and>
   use_redis (tg_bot cfg_bad_dsn) \<and> \<not> redis_scheme (dsn (redis cfg_bad_dsn)) \<and>
   get_storage world_example cfg_bad_dsn = Inl (Error ''ValueError'') \<and>
   map dp_storage (dispatchers (fst (run_module world_example))) = [MemoryStorage]"
proof -
  have redis: "use_redis (tg_bot cfg_redis)" "dsn (redis cfg_redis) = ''redis://localhost:6379/0''"
    "from_url_accepts world_example (dsn (redis cfg_redis))"
    by (simp_all add: cfg_redis_def from_url_accepts_def redis_scheme_def world_example_def)
  have bad: "use_redis (tg_bot cfg_bad_dsn)" "\<not> redis_scheme (dsn (redis cfg_bad_dsn))"
    by (simp_all add: cfg_bad_dsn_def redis_scheme_def)
  show ?thesis
    using storage_selection [of world_example cfg_redis]
      storage_selection [of world_example cfg_bad_dsn] redis bad
    by (simp add: dispatchers_world_example)
qed

text \<open>
  The claim as it is written fails at a config whose selector is set and whose DSN has
  no Redis scheme: \<open>get_storage\<close> returns no store, and the run ends before a dispatcher
  is built.
\<close>

theorem storage_selection_counterexample:
  "use_redis (tg_bot cfg_bad_dsn) \<and>
   get_storage world_bad_dsn cfg_bad_dsn = Inl (Error ''ValueError'') \<and>
   load_config_result world_bad_dsn = Inr cfg_bad_dsn \<and>
   dispatchers (fst (run_module world_bad_dsn)) = [] \<and>
   snd (run_module world_bad_dsn) = 1"
  by (simp add: get_storage_cfg_bad_dsn run_module_def main_world_bad_dsn started_def
        init_simps act_defs)
     (simp add: cfg_bad_dsn_def world_bad_dsn_def)

subsection \<open>Closing the API client\<close>

text \<open>
  C4. The claim asks for exactly one call of \<open>close()\<close> in every run. The code calls
  \<open>on_shutdown\<close> after the bot block, outside any \<open>finally\<close>: in a run in which
  \<open>start_polling\<close> raises, be it an error or the interrupt that the guard catches, the
  exception leaves \<open>main\<close> before \<open>on_shutdown\<close>, and the process ends, with status 1 or
  0, having polled and never called \<open>close()\<close>.
\<close>

theorem close_skipped_when_polling_raises:
  "StartPolling \<in> set (trace (fst (run_module world_polling_fails))) \<and>
   count_list (trace (fst (run_module world_polling_fails))) ApiClose = 0 \<and>
   snd (run_module world_polling_fails) = 1 \<and>
   StartPolling \<in> set (trace (fst (run_module world_interrupted))) \<and>
   count_list (trace (fst (run_module world_interrupted))) ApiClose = 0 \<and>
   snd (run_module world_interrupted) = 0"
  by (simp add: run_module_def main_world_polling_fails main_world_interrupted polled_def
        trace_simps act_defs)

subsection \<open>Pending updates\<close>

text \<open>
  C5. \<open>delete_webhook\<close> calls \<open>bot.delete_webhook\<close> with \<open>drop_pending_updates=True\<close>,
  and when the call returns the platform holds no webhook and no pending update.
  Whenever polling starts, that call is in the trace before it. The updates dispatched
  in a run are those that arrived after the webhook was cleared (none if polling never
  started), whatever updates the platform held when the process started.
\<close>

theorem pending_updates_dropped:
  "dispatched (trace (fst (run_module w))) =
     (if StartPolling \<in> set (trace (fst (run_module w))) then arrivals w else []) \<and>
   (StartPolling \<in> set (trace (fst (run_module w))) \<longrightarrow>
      DeleteWebhook True \<in>
        set (takeWhile (\<lambda>ev. ev \<noteq> StartPolling) (trace (fst (run_module w))))) \<and>
   DeleteWebhook True \<in> set (trace (snd (delete_webhook w b s))) \<and>
   (fst (delete_webhook w b s) = Inr () \<longrightarrow>
      pending (snd (delete_webhook w b s)) = [] \<and> webhook (snd (delete_webhook w b s)) = None)"
proof -
  have "dispatched (trace (fst (run_module w))) =
     (if StartPolling \<in> set (trace (fst (run_module w))) then arrivals w else []) \<and>
   (StartPolling \<in> set (trace (fst (run_module w))) \<longrightarrow>
      DeleteWebhook True \<in>
        set (takeWhile (\<lambda>ev. ev \<noteq> StartPolling) (trace (fst (run_module w)))))"
    by (cases w rule: main_cases; simp add: run_simps trace_simps split: exn.splits)
  moreover have "DeleteWebhook True \<in> set (trace (snd (delete_webhook w b s))) \<and>
    (fst (delete_webhook w b s) = Inr () \<longrightarrow>
      pending (snd (delete_webhook w b s)) = [] \<and> webhook (snd (delete_webhook w b s)) = None)"
    by (simp add: delete_webhook_def Bot_delete_webhook_def act_defs split: option.splits)
  ultimately show ?thesis by blast
qed

theorem pending_updates_dropped_witness:
  "offline_updates world_example = [1, 2] \<and>
   StartPolling \<in> set (trace (fst (run_module world_example))) \<and>
   dispatched (trace (fst (run_module world_example))) = [3] \<and>
   fst (delete_webhook world_example ''42:abc'' (init world_example)) = Inr () \<and>
   pending (snd (delete_webhook world_example ''42:abc'' (init world_example))) = []"
proof -
  have "StartPolling \<in> set (trace (fst (run_module world_example)))"
    by (simp add: trace_world_example)
  moreover have "fst (delete_webhook world_example ''42:abc'' (init world_example)) = Inr ()"
    by (simp add: delete_webhook_def Bot_delete_webhook_def act_defs world_example_def)
  moreover have "offline_updates world_example = [1, 2]" "arrivals world_example = [3]"
    by (simp_all add: world_example_def)
  ultimately show ?thesis
    using pending_updates_dropped [of world_example "''42:abc''" "init world_example"]
    by simp
qed

subsection \<open>One set of middleware objects for both pipelines\<close>

text \<open>
  C6. A call of \<open>register_global_middlewares\<close> appends the same references, in the same
  order, to the outer middlewares of the message pipeline and of the callback-query
  pipeline: the addresses of the objects the call has constructed, one object for each
  entry, in the order of construction. The objects already in the store stay as they
  were, and two pipelines that were equal before the call are equal after it.
\<close>

theorem same_instances_on_both_pipelines:
  "dp < length (dispatchers s) \<Longrightarrow>
   (let s' = snd (register_global_middlewares dp cfg api_client s);
        d = dispatchers s ! dp; d' = dispatchers s' ! dp
    in added (message_outer d) (message_outer d') = [length (objs s) ..< length (objs s')] \<and>
       added (callback_query_outer d) (callback_query_outer d')
         = [length (objs s) ..< length (objs s')] \<and>
       take (length (objs s)) (objs s') = objs s \<and>
       (message_outer d = callback_query_outer d \<longrightarrow>
          message_outer d' = callback_query_outer d'))"
  by (simp add: register_global_middlewares_run Let_def added_def upt_rec)

theorem same_instances_on_both_pipelines_witness:
  "0 < length (dispatchers sys_example) \<and>
   objs (snd (register_global_middlewares 0 cfg_example (Some (Client 7 True)) sys_example))
     = [ConfigMiddleware cfg_example, ApiMiddleware (Some (Client 7 True)), LanguageMiddleware] \<and>
   message_outer (dispatchers
     (snd (register_global_middlewares 0 cfg_example (Some (Client 7 True)) sys_example)) ! 0)
     = [0, 1, 2] \<and>
   callback_query_outer (dispatchers
     (snd (register_global_middlewares 0 cfg_example (Some (Client 7 True)) sys_example)) ! 0)
     = [0, 1, 2]"
proof -
  have "objs (snd (register_global_middlewares 0 cfg_example (Some (Client 7 True)) sys_example))
     = [ConfigMiddleware cfg_example, ApiMiddleware (Some (Client 7 True)), LanguageMiddleware]"
    by (simp add: register_global_middlewares_run sys_example_simps)
  with same_instances_on_both_pipelines [of 0 sys_example cfg_example "Some (Client 7 True)"]
  show ?thesis
    by (simp add: sys_example_simps Let_def added_def upt_rec)
qed

subsection \<open>The exit status\<close>

text \<open>
  C7. When \<open>asyncio.run(main())\<close> ends with \<open>KeyboardInterrupt\<close> or \<open>SystemExit\<close>, the
  guard logs its message with \<open>logging.error\<close>, as the last event of the run, and the
  exit status of the process is 0.
\<close>

theorem interrupt_exit_zero:
  "fst (main w (init w)) = Inl e \<Longrightarrow> e = KeyboardInterrupt \<or> e = SystemExit \<Longrightarrow>
     snd (run_module w) = 0 \<and>
     trace (fst (run_module w)) = trace (snd (main w (init w))) @ [LogError bot_stopped_text]"
  by (auto simp add: run_module_def act_defs split: prod.splits sum.splits)

theorem interrupt_exit_zero_witness:
  "fst (main world_interrupted (init world_interrupted)) = Inl KeyboardInterrupt \<and>
   snd (run_module world_interrupted) = 0 \<and>
   last (trace (fst (run_module world_interrupted))) = LogError bot_stopped_text"
proof -
  have "fst (main world_interrupted (init world_interrupted)) = Inl KeyboardInterrupt"
    by (simp add: main_world_interrupted)
  with interrupt_exit_zero [of world_interrupted KeyboardInterrupt] show ?thesis
    by simp
qed

text \<open>
  C8, as the code has it. When a call that \<open>main\<close> makes before it polls raises
  (\<open>load_config\<close>, \<open>get_storage\<close>, \<open>MyApi()\<close>, \<open>Bot(token=...)\<close>, \<open>include_routers\<close>
  or the webhook clear), \<open>main\<close> ends with that exception and polling never starts.
  If the exception is neither \<open>KeyboardInterrupt\<close> nor \<open>SystemExit\<close>, nothing catches
  it and nothing is logged about it: the run begins with the start line of the log and
  ends with the interpreter's traceback, and the exit status is 1. If it is
  \<open>KeyboardInterrupt\<close> or \<open>SystemExit\<close>, the guard logs its message and the exit status
  is 0.
\<close>

theorem fatal_startup_error:
  "startup_failure w = Some e \<Longrightarrow>
     fst (main w (init w)) = Inl e \<and>
     StartPolling \<notin> set (trace (fst (run_module w))) \<and>
     hd (trace (fst (run_module w))) = LogInfo ''Starting bot'' \<and>
     (case e of
        Error n \<Rightarrow>
          snd (run_module w) = 1 \<and>
          last (trace (fst (run_module w))) = Traceback (Error n) \<and>
          error_log (trace (fst (run_module w))) = []
      | _ \<Rightarrow>
          snd (run_module w) = 0 \<and>
          last (trace (fst (run_module w))) = LogError bot_stopped_text \<and>
          error_log (trace (fst (run_module w))) = [bot_stopped_text])"
  by (cases w rule: main_cases;
      simp add: startup_failure_def run_simps trace_simps split: exn.splits)

theorem fatal_startup_error_witness:
  "startup_failure world_bad_config = Some (Error ''ConfigError'') \<and>
   snd (run_module world_bad_config) = 1 \<and>
   last (trace (fst (run_module world_bad_config))) = Traceback (Error ''ConfigError'') \<and>
   startup_failure world_unauthorized = Some (Error ''TelegramUnauthorizedError'') \<and>
   snd (run_module world_unauthorized) = 1 \<and>
   StartPolling \<notin> set (trace (fst (run_module world_unauthorized))) \<and>
   startup_failure world_bad_dsn = Some (Error ''ValueError'') \<and>
   snd (run_module world_bad_dsn) = 1 \<and>
   startup_failure world_config_exit = Some SystemExit \<and>
   snd (run_module world_config_exit) = 0"
proof -
  have "startup_failure world_bad_config = Some (Error ''ConfigError'')"
    by (simp add: startup_failure_def world_bad_config_def)
  moreover have "startup_failure world_unauthorized = Some (Error ''TelegramUnauthorizedError'')"
    by (simp add: startup_failure_def get_storage_cfg_example include_routers_raises_def
          world_unauthorized_def world_example_def)
  moreover have "startup_failure world_bad_dsn = Some (Error ''ValueError'')"
    by (simp add: startup_failure_def get_storage_cfg_bad_dsn world_bad_dsn_def)
  moreover have "startup_failure world_config_exit = Some SystemExit"
    by (simp add: startup_failure_def world_config_exit_def)
  ultimately show ?thesis
    using fatal_startup_error [of world_bad_config "Error ''ConfigError''"]
      fatal_startup_error [of world_unauthorized "Error ''TelegramUnauthorizedError''"]
      fatal_startup_error [of world_bad_dsn "Error ''ValueError''"]
      fatal_startup_error [of world_config_exit SystemExit]
    by simp
qed

text \<open>
  The claim as it is written fails twice. When \<open>load_config\<close> raises \<open>SystemExit\<close> the
  guard catches it and the exit status is 0. When it raises an ordinary error the exit
  status is 1, but the program logs nothing about the error: the log holds the start
  line only, and the traceback is the interpreter's.
\<close>

theorem fatal_startup_error_counterexample:
  "load_config_result world_config_exit = Inl SystemExit \<and>
   snd (run_module world_config_exit) = 0 \<and>
   load_config_result world_bad_config = Inl (Error ''ConfigError'') \<and>
   snd (run_module world_bad_config) = 1 \<and>
   trace (fst (run_module world_bad_config))
     = [LogInfo ''Starting bot'', Traceback (Error ''ConfigError'')]"
  by (simp add: run_module_def main_world_config_exit main_world_bad_config started_def
        init_simps act_defs)
     (simp add: world_config_exit_def world_bad_config_def)

subsection \<open>The startup broadcast\<close>

text \<open>
  C9. \<open>on_startup\<close> returns without an error whichever sends fail, and the sends it
  attempts are one to each administrator of the list, in the order of the list. In
  every run of \<open>main\<close> that gets to the broadcast, every administrator of the loaded
  config is sent the notification, in the order of the config, and polling starts,
  whichever sends fail.
\<close>

theorem broadcast_best_effort:
  "fst (on_startup w b ids s) = Inr () \<and>
   recipients (trace (snd (on_startup w b ids s))) = recipients (trace s) @ ids \<and>
   (AdminBroadcast \<in> set (startup_steps (trace (fst (run_module w)))) \<longrightarrow>
      (\<exists>cfg. load_config_result w = Inr cfg \<and>
         recipients (trace (fst (run_module w))) = admin_ids (tg_bot cfg)) \<and>
      StartPolling \<in> set (trace (fst (run_module w))))"
proof -
  have "fst (on_startup w b ids s) = Inr () \<and>
   recipients (trace (snd (on_startup w b ids s))) = recipients (trace s) @ ids"
    by (simp add: on_startup_def broadcast_def broadcast_sends_run act_defs trace_simps)
  moreover have "AdminBroadcast \<in> set (startup_steps (trace (fst (run_module w)))) \<longrightarrow>
      (\<exists>cfg. load_config_result w = Inr cfg \<and>
         recipients (trace (fst (run_module w))) = admin_ids (tg_bot cfg)) \<and>
      StartPolling \<in> set (trace (fst (run_module w)))"
    by (cases w rule: main_cases; simp add: run_simps trace_simps split: exn.splits)
  ultimately show ?thesis by blast
qed

theorem broadcast_best_effort_witness:
  "failing_admins world_example = [111] \<and>
   admin_ids (tg_bot cfg_example) = [111, 222] \<and>
   AdminBroadcast \<in> set (startup_steps (trace (fst (run_module world_example)))) \<and>
   recipients (trace (fst (run_module world_example))) = [111, 222] \<and>
   StartPolling \<in> set (trace (fst (run_module world_example)))"
proof -
  have "load_config_result world_example = Inr cfg_example"
    "failing_admins world_example = [111]"
    by (simp_all add: world_example_def)
  moreover have "admin_ids (tg_bot cfg_example) = [111, 222]"
    by (simp add: cfg_example_def)
  moreover have "AdminBroadcast \<in> set (startup_steps (trace (fst (run_module world_example))))"
    by (simp add: trace_world_example)
  ultimately show ?thesis
    using broadcast_best_effort [of world_example "''42:abc''" "[]" "init world_example"]
    by simp
qed

subsection \<open>The chain that main registers\<close>




subsection \<open>Further properties of shutdown\<close>

text \<open>
  In every run \<open>close()\<close> is called at most once. In every run in which polling has
  started and \<open>start_polling\<close> returns, with a truthy \<open>MyApi\<close> object, shutdown calls
  \<open>close()\<close> exactly once, whatever updates were dispatched, none included.
  \<open>on_shutdown\<close> with \<open>None\<close>, or with any falsy client, changes nothing (no \<open>close()\<close>
  call, no log line) and raises no error.
\<close>

theorem close_once_when_polling_returns:
  "count_list (trace (fst (run_module w))) ApiClose \<le> 1 \<and>
   (StartPolling \<in> set (trace (fst (run_module w))) \<and> polling_raises w = None \<and> MyApi_truthy w
    \<longrightarrow> count_list (trace (fst (run_module w))) ApiClose = 1) \<and>
   (\<not> truthy c \<longrightarrow> on_shutdown w c s = (Inr (), s)) \<and>
   on_shutdown w None s = (Inr (), s)"
proof -
  have "count_list (trace (fst (run_module w))) ApiClose \<le> 1 \<and>
   (StartPolling \<in> set (trace (fst (run_module w))) \<and> polling_raises w = None \<and> MyApi_truthy w
    \<longrightarrow> count_list (trace (fst (run_module w))) ApiClose = 1)"
    by (cases w rule: main_cases; simp add: run_simps trace_simps split: exn.splits)
  then show ?thesis
    by (simp add: on_shutdown_def act_defs)
qed

theorem close_once_when_polling_returns_witness:
  "StartPolling \<in> set (trace (fst (run_module world_quiet))) \<and>
   polling_raises world_quiet = None \<and> MyApi_truthy world_quiet \<and>
   dispatched (trace (fst (run_module world_quiet))) = [] \<and>
   count_list (trace (fst (run_module world_quiet))) ApiClose = 1 \<and>
   \<not> truthy (Some (Client 1 False)) \<and>
   on_shutdown world_quiet (Some (Client 1 False)) sys_example = (Inr (), sys_example)"
proof -
  have ok: "polling_raises world_quiet = None" "MyApi_truthy world_quiet" "arrivals world_quiet = []"
    by (simp_all add: world_quiet_def world_example_def)
  have "StartPolling \<in> set (trace (fst (run_module world_quiet)))"
    "dispatched (trace (fst (run_module world_quiet))) = []"
    by (simp_all add: run_module_def main_world_quiet polled_def trace_simps ok)
  with close_once_when_polling_returns [of world_quiet "Some (Client 1 False)" sys_example] ok
  show ?thesis by simp
qed

text \<open>
  The bot session is closed by \<open>start_polling\<close> when polling ends and by the
  \<open>async with\<close> block when the block is left, by return or by exception: twice in a
  run that polled, once in a run that built the \<open>Bot\<close> and did not poll, and never in
  a run that ended before the \<open>Bot\<close> constructor returned.
\<close>

theorem session_closes:
  "count_list (trace (fst (run_module w))) SessionClose =
     (if StartPolling \<in> set (trace (fst (run_module w))) then 2
      else if (\<exists>cfg st. load_config_result w = Inr cfg \<and> get_storage w cfg = Inr st) \<and>
              MyApi_raises w = None \<and> Bot_raises w = None then 1
      else 0)"
  by (cases w rule: main_cases; simp add: run_simps trace_simps split: exn.splits)

end
